theory Spec2Isabelle
  imports Complex_Main
begin

section \<open>JavaScript numbers\<close>

text \<open>
  A JavaScript \<open>number\<close> that the code tests with \<open>isNaN\<close>, or that can come from
  reading an array out of range, is a \<open>number\<close>: either \<open>NaN\<close> or a finite value.
  Finite values are rationals (every finite double is one); the infinities are not
  modelled. Clock readings (\<open>Date.now()\<close>, milliseconds) and counts are \<open>int\<close>.
\<close>

datatype number = NaN | Num rat

text \<open>\<open>x > 0\<close>: every comparison with \<open>NaN\<close> (and with \<open>undefined\<close>) is false.\<close>

fun isPositive :: "number \<Rightarrow> bool" where
  "isPositive NaN = False"
| "isPositive (Num x) = (x > 0)"

text \<open>\<open>x * c\<close>: \<open>NaN\<close> (and \<open>undefined\<close>) times anything is \<open>NaN\<close>.\<close>

fun timesNum :: "number \<Rightarrow> rat \<Rightarrow> number" where
  "timesNum NaN c = NaN"
| "timesNum (Num x) c = Num (x * c)"

text \<open>\<open>arr[i]\<close> on a \<open>number[]\<close>: out of range JavaScript gives \<open>undefined\<close>, which
  behaves as \<open>NaN\<close> in the two operations above.\<close>

definition elemAt :: "rat list \<Rightarrow> nat \<Rightarrow> number" where
  "elemAt arr i = (if i < length arr then Num (arr ! i) else NaN)"

section \<open>DefaultSimulcastUplinkPolicy\<close>

subsection \<open>Data\<close>

datatype ActiveStreams = kHi | kHiAndLow | kMidAndLow | kLow

datatype SimulcastLayers = Low | LowAndMedium | LowAndHigh | Medium | MediumAndHigh | High

record RTCRtpEncodingParameters =
  rid :: string
  active :: bool
  scaleResolutionDownBy :: rat
  maxBitrate :: number

type_synonym QualityMap = "string \<rightharpoonup> RTCRtpEncodingParameters"

record VideoStreamDescription =
  streamId :: int
  disabledByWebRTC :: bool

text \<open>
  The \<open>VideoStreamIndex\<close> is an object of its own, which the policy only holds a
  reference to; what its three methods return may change between two calls of the
  policy. The objects live in a store, indexed by reference.
\<close>

record VideoStreamIndex =
  numberOfVideoPublishingParticipantsExcludingSelf :: int
  numberOfParticipants :: int
  localStreamDescriptions :: "VideoStreamDescription list"

type_synonym ref = nat
type_synonym store = "ref \<Rightarrow> VideoStreamIndex"

text \<open>
  The fields of the class. \<open>optimalParameters\<close>, \<open>parametersInEffect\<close> and the
  logger are left out: no method modelled here reads them. The observer queue is
  represented by \<open>published\<close>, the layer sets handed to \<open>forEachObserver\<close>, in order.
  \<open>activeStreamsToPublish\<close> is declared without an initial value, hence an option.
\<close>

record Policy =
  numSenders :: int
  shouldDisableSimulcast :: bool
  newQualityMap :: QualityMap
  currentQualityMap :: QualityMap
  newActiveStreams :: ActiveStreams
  currentActiveStreams :: ActiveStreams
  lastUplinkBandwidthKbps :: rat
  startTimeMs :: int
  lastUpdatedMs :: int
  videoIndex :: "ref option"
  currLocalDescriptions :: "VideoStreamDescription list"
  nextLocalDescriptions :: "VideoStreamDescription list"
  activeStreamsToPublish :: "ActiveStreams option"
  published :: "SimulcastLayers list"

text \<open>Dereferencing \<open>this.videoIndex\<close> while it is still \<open>null\<close> throws.\<close>

datatype TypeError = NullVideoIndex

subsection \<open>Constants\<close>

definition defaultUplinkBandwidthKbps :: rat where
  "defaultUplinkBandwidthKbps = 1200"

definition startupDurationMs :: int where
  "startupDurationMs = 6000"

definition holdDownDurationMs :: int where
  "holdDownDurationMs = 4000"

definition kHiDisabledRate :: rat where
  "kHiDisabledRate = 700"

definition kMidDisabledRate :: rat where
  "kMidDisabledRate = 240"

text \<open>
  Modelled from the spec: \<open>SimulcastTransceiverController.NAME_ARR_ASCENDING\<close> is not
  among the sources. The spec fixes the layer identifiers as low/mid/high, in ascending
  order; the policy itself compares a \<open>rid\<close> with \<open>'low'\<close> and \<open>'mid'\<close>, and the
  subscribe task names the top layer \<open>'hi'\<close>.
\<close>

definition NAME_ARR_ASCENDING :: "string list" where
  "NAME_ARR_ASCENDING = [''low'', ''mid'', ''hi'']"

subsection \<open>fillEncodingParamWithBitrates\<close>

text \<open>The \<open>for\<close> loop over \<open>nameArr\<close>, with its index \<open>i\<close>, the running \<open>scale\<close> and
  the map under construction.\<close>

fun fillLoop :: "string list \<Rightarrow> rat list \<Rightarrow> nat \<Rightarrow> rat \<Rightarrow> QualityMap \<Rightarrow> QualityMap" where
  "fillLoop [] bitrateArr i scale newMap = newMap"
| "fillLoop (ridName # rest) bitrateArr i scale newMap =
     fillLoop rest bitrateArr (i + 1) (scale / 2)
       (newMap(ridName \<mapsto>
          \<lparr> rid = ridName,
            active = (if isPositive (elemAt bitrateArr i) then True else False),
            scaleResolutionDownBy = max scale 1,
            maxBitrate = timesNum (elemAt bitrateArr i) 1000 \<rparr>))"

definition fillEncodingParamWithBitrates :: "Policy \<Rightarrow> rat list \<Rightarrow> QualityMap" where
  "fillEncodingParamWithBitrates s bitratesKbps =
     fillLoop NAME_ARR_ASCENDING bitratesKbps 0
       (if shouldDisableSimulcast s then 1 else 4) Map.empty"

subsection \<open>encodingParametersEqual\<close>

text \<open>
  \<open>compareEncodingParameter\<close> compares the \<open>JSON.stringify\<close> images of two entries.
  Both are built by \<open>fillEncodingParamWithBitrates\<close>, with the same keys in the same
  order, so the strings are equal exactly when the entries are; two missing entries
  (\<open>undefined\<close>) compare equal as well.
\<close>

definition compareEncodingParameter ::
  "RTCRtpEncodingParameters option \<Rightarrow> RTCRtpEncodingParameters option \<Rightarrow> bool" where
  "compareEncodingParameter encoding1 encoding2 = (encoding1 = encoding2)"

fun differentLoop :: "string list \<Rightarrow> bool \<Rightarrow> Policy \<Rightarrow> bool" where
  "differentLoop [] different s = different"
| "differentLoop (ridName # rest) different s =
     (let different' =
            (different \<or>
             \<not> compareEncodingParameter (newQualityMap s ridName) (currentQualityMap s ridName))
      in if different' then different' else differentLoop rest different' s)"

definition encodingParametersEqual :: "Policy \<Rightarrow> bool" where
  "encodingParametersEqual s = (\<not> differentLoop NAME_ARR_ASCENDING False s)"

subsection \<open>calculateEncodingParameters\<close>

text \<open>
  \<open>getQualityMapString\<close> builds a string for the log. What matters to the caller is
  that it dereferences \<open>this.videoIndex\<close> first.
\<close>

definition getQualityMapString :: "Policy \<Rightarrow> TypeError + unit" where
  "getQualityMapString s =
     (case videoIndex s of None \<Rightarrow> Inl NullVideoIndex | Some r \<Rightarrow> Inr ())"

text \<open>The pair \<open>(hysteresisIncrease, hysteresisDecrease)\<close> chosen from the layer set
  in effect.\<close>

definition hysteresis :: "Policy \<Rightarrow> rat \<times> rat" where
  "hysteresis s =
     (if currentActiveStreams s = kHi then (lastUplinkBandwidthKbps s + 1, 0)
      else if currentActiveStreams s = kHiAndLow then (2400, kHiDisabledRate)
      else if currentActiveStreams s = kMidAndLow then (1000, kMidDisabledRate)
      else (300, 0))"

text \<open>The condition of the outer \<open>if\<close>: the recomputation runs.\<close>

definition recomputes :: "bool \<Rightarrow> Policy \<Rightarrow> bool" where
  "recomputes numSendersChanged s =
     (numSendersChanged \<or>
      lastUplinkBandwidthKbps s \<ge> fst (hysteresis s) \<or>
      lastUplinkBandwidthKbps s \<le> snd (hysteresis s))"

text \<open>The layer set and the three bitrates \<open>[low, mid, high]\<close> of the inner chain.\<close>

definition decide :: "Policy \<Rightarrow> ActiveStreams \<times> rat list" where
  "decide s =
     (if shouldDisableSimulcast s then (kHi, [0, 1200, 0])
      else if numSenders s \<le> 4 \<and> lastUplinkBandwidthKbps s \<ge> kHiDisabledRate
        then (kHiAndLow, [300, 0, 1200])
      else if lastUplinkBandwidthKbps s \<ge> kMidDisabledRate
        then (kMidAndLow,
              [if lastUplinkBandwidthKbps s \<ge> 350 then 200 else 150,
               if numSenders s \<le> 6 then 600 else 350,
               0])
      else (kLow, [300, 0, 0]))"

text \<open>
  The method assigns the two fields and then, when the new map differs from the one in
  effect, logs a line built with \<open>getQualityMapString\<close>; a throw there leaves the
  assignments in place. The result is the pair of what the call returns (or throws) and
  the state it leaves.
\<close>

definition calculateEncodingParameters ::
  "bool \<Rightarrow> Policy \<Rightarrow> (TypeError + QualityMap) \<times> Policy" where
  "calculateEncodingParameters numSendersChanged s =
     (if recomputes numSendersChanged s then
        (let s1 = s\<lparr> newActiveStreams := fst (decide s) \<rparr>;
             s2 = s1\<lparr> newQualityMap := fillEncodingParamWithBitrates s1 (snd (decide s)) \<rparr>
         in if \<not> encodingParametersEqual s2
            then (case getQualityMapString s2 of
                    Inl e \<Rightarrow> (Inl e, s2)
                  | Inr u \<Rightarrow> (Inr (newQualityMap s2), s2))
            else (Inr (newQualityMap s2), s2))
      else (Inr (newQualityMap s), s))"

subsection \<open>The constructor and the public methods\<close>

text \<open>\<open>now\<close> is the reading of \<open>Date.now()\<close> in the initialiser of \<open>lastUpdatedMs\<close>.\<close>

definition initialPolicy :: "int \<Rightarrow> Policy" where
  "initialPolicy now =
     (let s0 = \<lparr> numSenders = 0, shouldDisableSimulcast = False,
                 newQualityMap = Map.empty, currentQualityMap = Map.empty,
                 newActiveStreams = kHiAndLow, currentActiveStreams = kHiAndLow,
                 lastUplinkBandwidthKbps = defaultUplinkBandwidthKbps,
                 startTimeMs = 0, lastUpdatedMs = now, videoIndex = None,
                 currLocalDescriptions = [], nextLocalDescriptions = [],
                 activeStreamsToPublish = None, published = [] \<rparr>
      in s0\<lparr> currentQualityMap := fillEncodingParamWithBitrates s0 [300, 0, 1200],
             newQualityMap := fillEncodingParamWithBitrates s0 [300, 0, 1200] \<rparr>)"

text \<open>The local \<open>holdTime\<close> of \<open>updateConnectionMetric\<close>, from the layer set in effect
  and the raw sample.\<close>

definition holdTime :: "ActiveStreams \<Rightarrow> rat \<Rightarrow> int" where
  "holdTime cur uplinkKbps =
     (if cur = kLow then holdDownDurationMs * 2
      else if (cur = kMidAndLow \<and> uplinkKbps \<le> kMidDisabledRate) \<or>
              (cur = kHiAndLow \<and> uplinkKbps \<le> kHiDisabledRate)
        then holdDownDurationMs div 2
      else holdDownDurationMs)"

text \<open>
  \<open>updateConnectionMetric\<close> takes \<open>uplinkKbps\<close> as destructured from the metrics, a
  missing field being 0. It reads the clock up to three times: \<open>now1\<close> when it sets
  \<open>startTimeMs\<close>, \<open>now2\<close> in the startup test and \<open>now3\<close> in the hold-down test.
  \<open>recordSample\<close> is its first half, up to the assignment of
  \<open>lastUplinkBandwidthKbps\<close>.
\<close>

definition recordSample :: "rat \<Rightarrow> int \<Rightarrow> int \<Rightarrow> Policy \<Rightarrow> Policy" where
  "recordSample u now1 now2 s =
     (let s1 = (if startTimeMs s = 0 then s\<lparr> startTimeMs := now1 \<rparr> else s)
      in if now2 - startTimeMs s1 < startupDurationMs
         then s1\<lparr> lastUplinkBandwidthKbps := defaultUplinkBandwidthKbps \<rparr>
         else s1\<lparr> lastUplinkBandwidthKbps := u \<rparr>)"

definition updateConnectionMetric ::
  "number \<Rightarrow> int \<Rightarrow> int \<Rightarrow> int \<Rightarrow> Policy \<Rightarrow> (TypeError + unit) \<times> Policy" where
  "updateConnectionMetric uplinkKbps now1 now2 now3 s =
     (case uplinkKbps of
        NaN \<Rightarrow> (Inr (), s)
      | Num u \<Rightarrow>
          (let s2 = recordSample u now1 now2 s
           in if now3 < lastUpdatedMs s2 + holdTime (currentActiveStreams s2) u
              then (Inr (), s2)
              else (case calculateEncodingParameters False s2 of
                      (Inl e, s3) \<Rightarrow> (Inl e, s3)
                    | (Inr m, s3) \<Rightarrow> (Inr (), s3\<lparr> newQualityMap := m \<rparr>))))"

fun getEncodingSimulcastLayer :: "ActiveStreams \<Rightarrow> SimulcastLayers" where
  "getEncodingSimulcastLayer kHi = High"
| "getEncodingSimulcastLayer kHiAndLow = LowAndHigh"
| "getEncodingSimulcastLayer kMidAndLow = LowAndMedium"
| "getEncodingSimulcastLayer kLow = Low"

definition chooseEncodingParameters :: "Policy \<Rightarrow> QualityMap \<times> Policy" where
  "chooseEncodingParameters s =
     (let s1 = s\<lparr> currentQualityMap := newQualityMap s,
                  currentActiveStreams := newActiveStreams s \<rparr>;
          s2 = (if activeStreamsToPublish s1 \<noteq> Some (newActiveStreams s1)
                then s1\<lparr> activeStreamsToPublish := Some (newActiveStreams s1),
                         published := published s1 @
                                      [getEncodingSimulcastLayer (newActiveStreams s1)] \<rparr>
                else s1)
      in (currentQualityMap s2, s2))"

definition updateIndex :: "store \<Rightarrow> ref \<Rightarrow> Policy \<Rightarrow> (TypeError + unit) \<times> Policy" where
  "updateIndex h r s =
     (let numSenders' = numberOfVideoPublishingParticipantsExcludingSelf (h r) + 1;
          numSendersChanged = (numSenders' \<noteq> numSenders s);
          numParticipants = numberOfParticipants (h r);
          newShouldDisableSimulcast = (numParticipants \<ge> 0 \<and> numParticipants \<le> 2);
          shouldDisableSimulcastChanged = (shouldDisableSimulcast s \<noteq> newShouldDisableSimulcast);
          s1 = s\<lparr> numSenders := numSenders',
                  shouldDisableSimulcast := newShouldDisableSimulcast,
                  videoIndex := Some r \<rparr>
      in case calculateEncodingParameters (numSendersChanged \<or> shouldDisableSimulcastChanged) s1 of
           (Inl e, s2) \<Rightarrow> (Inl e, s2)
         | (Inr m, s2) \<Rightarrow> (Inr (), s2\<lparr> newQualityMap := m \<rparr>))"

text \<open>
  The loop of \<open>wantsResubscribe\<close> over \<open>nextLocalDescriptions\<close>. A \<open>streamId\<close> is a
  number, so \<open>streamId !== 0 && !!streamId\<close> is \<open>streamId \<noteq> 0\<close>. \<open>findIndex\<close> returns
  the first entry of \<open>currLocalDescriptions\<close> with that \<open>streamId\<close>, if any.
\<close>

fun flipLoop ::
  "VideoStreamDescription list \<Rightarrow> VideoStreamDescription list \<Rightarrow> bool \<Rightarrow> bool" where
  "flipLoop [] currDescs constraintDiff = constraintDiff"
| "flipLoop (d # rest) currDescs constraintDiff =
     flipLoop rest currDescs
       (if streamId d \<noteq> 0 then
          (case find (\<lambda>val. streamId val = streamId d) currDescs of
             None \<Rightarrow> constraintDiff
           | Some prev \<Rightarrow>
               (if disabledByWebRTC d \<noteq> disabledByWebRTC prev then True else constraintDiff))
        else constraintDiff)"

definition wantsResubscribe :: "store \<Rightarrow> int \<Rightarrow> Policy \<Rightarrow> (TypeError + bool) \<times> Policy" where
  "wantsResubscribe h now s =
     (case videoIndex s of
        None \<Rightarrow> (Inl NullVideoIndex, s)
      | Some r \<Rightarrow>
          (let s1 = s\<lparr> nextLocalDescriptions := localStreamDescriptions (h r) \<rparr>;
               constraintDiff =
                 flipLoop (nextLocalDescriptions s1) (currLocalDescriptions s1)
                   (\<not> encodingParametersEqual s);
               s2 = (if constraintDiff then s1\<lparr> lastUpdatedMs := now \<rparr> else s1);
               s3 = s2\<lparr> currLocalDescriptions := nextLocalDescriptions s2 \<rparr>
           in (Inr constraintDiff, s3)))"

text \<open>
  The states the policy can be in: the constructor's, and what each public method leaves,
  whether it returns or throws, whatever its arguments and the clock.
\<close>

inductive reachable :: "Policy \<Rightarrow> bool" where
  constructed: "reachable (initialPolicy now)"
| metric: "reachable s \<Longrightarrow> reachable (snd (updateConnectionMetric x now1 now2 now3 s))"
| index: "reachable s \<Longrightarrow> reachable (snd (updateIndex h r s))"
| choose: "reachable s \<Longrightarrow> reachable (snd (chooseEncodingParameters s))"
| resubscribe: "reachable s \<Longrightarrow> reachable (snd (wantsResubscribe h now s))"

text \<open>The map proposed while simulcast is disabled, and the invariant of the reachable
  states that it is the proposed map, with the index set, whenever simulcast is
  disabled.\<close>

abbreviation layer :: "string \<Rightarrow> bool \<Rightarrow> rat \<Rightarrow> rat \<Rightarrow> RTCRtpEncodingParameters" where
  "layer r a sc b \<equiv> \<lparr> rid = r, active = a, scaleResolutionDownBy = sc, maxBitrate = Num b \<rparr>"

definition singleLayerMap :: QualityMap where
  "singleLayerMap =
     [''low'' \<mapsto> layer ''low'' False 1 0,
      ''mid'' \<mapsto> layer ''mid'' True 1 1200000,
      ''hi'' \<mapsto> layer ''hi'' False 1 0]"

definition disabledInv :: "Policy \<Rightarrow> bool" where
  "disabledInv s =
     (shouldDisableSimulcast s \<longrightarrow> newQualityMap s = singleLayerMap \<and> videoIndex s \<noteq> None)"

section \<open>SubscribeAndReceiveSubscribeAckTask\<close>

subsection \<open>Data\<close>

text \<open>The two status codes the task uses.\<close>

datatype MeetingSessionStatusCode = TaskFailed | SignalingInternalServerError

text \<open>
  Modelled from the spec: \<open>SignalingClientEvent\<close>, \<open>SignalingClientEventType\<close> and
  \<open>SdkSignalFrame.Type\<close> are not among the sources. The spec has two kinds of event, a
  received frame and a terminated connection with its close code and reason; the task
  tells a received frame by \<open>ReceivedSignalFrame\<close> and an acknowledgement by
  \<open>SUBSCRIBE_ACK\<close>. What \<open>isConnectionTerminated()\<close> answers is a field of the event;
  a close code may be absent (\<open>undefined\<close>), and \<open>message.type\<close> is only read on a
  received frame.
\<close>

datatype SignalingClientEventType = ReceivedSignalFrame | OtherEventType

datatype SdkSignalFrameType = SUBSCRIBE_ACK | OtherFrameType

record SdkSubscribeAckFrame =
  sdpAnswer :: string

record SignalingClientEvent =
  isConnectionTerminated :: bool
  eventType :: SignalingClientEventType
  closeCode :: "int option"
  closeReason :: string
  messageType :: SdkSignalFrameType
  suback :: SdkSubscribeAckFrame

text \<open>The two \<open>Error\<close>s the task builds, and the lines it logs, by their content.\<close>

datatype TaskError =
    CanceledWhileWaiting
  | ConnectionTerminated "int option" string
  | CanceledBeforeRunning
  | AlreadyRunning
  | AlreadyFinished

text \<open>
  Modelled from the spec: \<open>BaseTask\<close>, which the class extends, is not among the
  sources. The spec (4.1) gives a task one terminal outcome, produced once, and tells
  settled from unsettled and canceled from not; \<open>TaskStatus\<close> is where a task stands in
  that: not yet run, running, canceled, or settled without a cancel.
\<close>

datatype TaskStatus = Idle | Running | Canceled | Finished

datatype LogLine =
    WarnMoreReceiveSections nat nat
  | InfoFixedUp "int list" "int list"
  | WarnConnectionTerminated "int option" string

datatype Promise = Pending | Resolved SdkSubscribeAckFrame | Rejected TaskError

text \<open>
  The task and the part of its context it acts on. Every call of \<open>receiveSubscribeAck\<close>
  creates a promise and an \<open>Interceptor\<close> whose closure holds the promise's \<open>resolve\<close>
  and \<open>reject\<close>; the interceptor is known by its number, \<open>waits\<close> gives the state of
  its promise. \<open>registered\<close> is the observer set of the signaling client,
  \<open>removeObserverCalls\<close> the calls of its \<open>removeObserver\<close>, \<open>handledStatus\<close> the
  calls of \<open>handleMeetingSessionStatus\<close>, \<open>subscribed\<close> the video subscriptions of
  the subscribe frames sent, each in order. \<open>handleMeetingSessionStatus\<close> is a method of
  the audio-video controller, outside the task: the model records the call, and what
  the controller does next (such as calling \<open>cancel\<close>) is a step of its own.
  \<open>status\<close> is the status the base task keeps.
\<close>

record Task =
  taskCanceler :: "nat option"
  interceptorsCreated :: nat
  waits :: "nat \<Rightarrow> Promise"
  registered :: "nat set"
  removeObserverCalls :: "nat list"
  handledStatus :: "(MeetingSessionStatusCode \<times> TaskError) list"
  logged :: "LogLine list"
  subscribed :: "int list list"
  contextSdpAnswer :: "string option"
  integratedAcks :: "SdkSubscribeAckFrame list"
  status :: TaskStatus

definition initialTask :: Task where
  "initialTask =
     \<lparr> taskCanceler = None, interceptorsCreated = 0, waits = (\<lambda>i. Pending),
       registered = {}, removeObserverCalls = [], handledStatus = [], logged = [],
       subscribed = [], contextSdpAnswer = None, integratedAcks = [], status = Idle \<rparr>"

subsection \<open>fixUpSubscriptionOrder\<close>

text \<open>
  \<open>DefaultSDP.videoSectionDirections\<close> is not among the sources: the function takes
  the direction list of the SDP's video sections in place of the SDP. The loop runs over
  it with \<open>subscriptionsWithoutZeroIndex\<close> and the array \<open>newSubscriptions\<close>; the
  result comes with the lines logged.
\<close>

fun fixUpLoop ::
  "string list \<Rightarrow> int list \<Rightarrow> nat \<Rightarrow> int list \<Rightarrow> LogLine list \<Rightarrow> int list \<times> LogLine list" where
  "fixUpLoop [] subscriptionsWithoutZero idx newSubscriptions lg = (newSubscriptions, lg)"
| "fixUpLoop (direction # rest) subscriptionsWithoutZero idx newSubscriptions lg =
     (if direction = ''recvonly'' then
        (if idx \<ge> length subscriptionsWithoutZero
         then fixUpLoop rest subscriptionsWithoutZero idx (newSubscriptions @ [0])
                (lg @ [WarnMoreReceiveSections idx (length subscriptionsWithoutZero)])
         else fixUpLoop rest subscriptionsWithoutZero (idx + 1)
                (newSubscriptions @ [subscriptionsWithoutZero ! idx]) lg)
      else fixUpLoop rest subscriptionsWithoutZero idx (newSubscriptions @ [0]) lg)"

definition fixUpSubscriptionOrder :: "string list \<Rightarrow> int list \<Rightarrow> int list \<times> LogLine list" where
  "fixUpSubscriptionOrder directions videoSubscriptions =
     (let subscriptionsWithoutZero = filter (\<lambda>value. value \<noteq> 0) videoSubscriptions;
          (newSubscriptions, lg) = fixUpLoop directions subscriptionsWithoutZero 0 [] []
      in (newSubscriptions, lg @ [InfoFixedUp videoSubscriptions newSubscriptions]))"

subsection \<open>The signaling client and the promise\<close>

text \<open>
  Modelled from the spec: the signaling client is not among the sources. The spec gives
  it \<open>registerObserver\<close> and \<open>removeObserver\<close> on a set of observers; removing an
  observer that is not registered leaves the set as it is.
\<close>

definition registerObserver :: "nat \<Rightarrow> Task \<Rightarrow> Task" where
  "registerObserver i w = w\<lparr> registered := insert i (registered w) \<rparr>"

definition removeObserver :: "nat \<Rightarrow> Task \<Rightarrow> Task" where
  "removeObserver i w =
     w\<lparr> registered := registered w - {i},
        removeObserverCalls := removeObserverCalls w @ [i] \<rparr>"

text \<open>A promise settles once: \<open>resolve\<close> and \<open>reject\<close> on a settled promise do nothing.\<close>

definition resolve :: "nat \<Rightarrow> SdkSubscribeAckFrame \<Rightarrow> Task \<Rightarrow> Task" where
  "resolve i frame w =
     (if waits w i = Pending then w\<lparr> waits := (waits w)(i := Resolved frame) \<rparr> else w)"

definition reject :: "nat \<Rightarrow> TaskError \<Rightarrow> Task \<Rightarrow> Task" where
  "reject i err w =
     (if waits w i = Pending then w\<lparr> waits := (waits w)(i := Rejected err) \<rparr> else w)"

subsection \<open>The interceptor\<close>

definition Interceptor_cancel :: "nat \<Rightarrow> Task \<Rightarrow> Task" where
  "Interceptor_cancel i w = reject i CanceledWhileWaiting (removeObserver i w)"

text \<open>The status code chosen from the close code; a comparison with an absent code is
  false.\<close>

definition statusCodeFor :: "int option \<Rightarrow> MeetingSessionStatusCode" where
  "statusCodeFor code =
     (case code of
        None \<Rightarrow> TaskFailed
      | Some c \<Rightarrow> if c \<ge> 4500 \<and> c < 4600 then SignalingInternalServerError else TaskFailed)"

definition handleSignalingClientEvent :: "nat \<Rightarrow> SignalingClientEvent \<Rightarrow> Task \<Rightarrow> Task" where
  "handleSignalingClientEvent i event w =
     (if isConnectionTerminated event then
        w\<lparr> logged := logged w @ [WarnConnectionTerminated (closeCode event) (closeReason event)],
           handledStatus := handledStatus w @
             [(statusCodeFor (closeCode event),
               ConnectionTerminated (closeCode event) (closeReason event))] \<rparr>
      else if eventType event \<noteq> ReceivedSignalFrame \<or> messageType event \<noteq> SUBSCRIBE_ACK then w
      else resolve i (suback event) (removeObserver i w))"

subsection \<open>The task\<close>

text \<open>\<open>receiveSubscribeAck\<close> returns the new promise, here the interceptor's number.\<close>

definition receiveSubscribeAck :: "Task \<Rightarrow> nat \<times> Task" where
  "receiveSubscribeAck w =
     (let interceptor = interceptorsCreated w;
          w1 = w\<lparr> interceptorsCreated := interceptor + 1,
                  waits := (waits w)(interceptor := Pending) \<rparr>;
          w2 = registerObserver interceptor w1
      in (interceptor, w2\<lparr> taskCanceler := Some interceptor \<rparr>))"

text \<open>
  \<open>cancel\<close> is the body of the override in the class, as written there. A call of
  \<open>cancel()\<close> on the task goes through the base task first: that is \<open>BaseTask_cancel\<close>
  below.
\<close>

definition cancel :: "Task \<Rightarrow> Task" where
  "cancel w =
     (case taskCanceler w of
        None \<Rightarrow> w
      | Some i \<Rightarrow> (Interceptor_cancel i w)\<lparr> taskCanceler := None \<rparr>)"

text \<open>
  The body of \<open>run\<close> in the class, in two halves, around its \<open>await\<close>; a call of
  \<open>run()\<close> on the task goes through the base task first, as \<open>BaseTask_runUntilAwait\<close>
  and \<open>BaseTask_runAfterAwait\<close> below. Of the first half the model keeps the
  choice of the video subscriptions, the subscribe frame sent and the call of
  \<open>receiveSubscribeAck\<close>; the rewriting of the SDP, the encoding parameter of the
  path without simulcast and the other fields of the frame are left out. The second half
  runs when the promise is settled: it throws what the promise was rejected with, or
  stores the answer and hands the frame to the stream index.
\<close>

definition runUntilAwait :: "bool \<Rightarrow> string list \<Rightarrow> int list \<Rightarrow> Task \<Rightarrow> nat \<times> Task" where
  "runUntilAwait requiresUnifiedPlan directions videoSubscriptions w =
     (let (subs, lg) = (if requiresUnifiedPlan
                        then fixUpSubscriptionOrder directions videoSubscriptions
                        else (videoSubscriptions, []))
      in receiveSubscribeAck
           (w\<lparr> logged := logged w @ lg, subscribed := subscribed w @ [subs] \<rparr>))"

datatype RunOutcome = Suspended | Fulfilled | Failed TaskError

definition runAfterAwait :: "nat \<Rightarrow> Task \<Rightarrow> RunOutcome \<times> Task" where
  "runAfterAwait i w =
     (case waits w i of
        Pending \<Rightarrow> (Suspended, w)
      | Rejected err \<Rightarrow> (Failed err, w)
      | Resolved subscribeAckFrame \<Rightarrow>
          (Fulfilled,
           w\<lparr> contextSdpAnswer := Some (sdpAnswer subscribeAckFrame),
              integratedAcks := integratedAcks w @ [subscribeAckFrame] \<rparr>))"

subsection \<open>The base task\<close>

text \<open>
  Modelled from the spec: \<open>BaseTask\<close> is not among the sources; what a caller's
  \<open>cancel()\<close> and \<open>run()\<close> do before they reach the class's own bodies follows the
  contract of the spec (4.1). \<open>cancel()\<close> is idempotent and meaningful at most once,
  later calls being no-ops; called after the task has settled it has no effect; called
  before, it makes the task settle with a cancellation failure and tears the waiting
  down, which is the class's \<open>cancel\<close>.
\<close>

definition BaseTask_cancel :: "Task \<Rightarrow> Task" where
  "BaseTask_cancel w =
     (if status w = Canceled \<or> status w = Finished then w
      else cancel (w\<lparr> status := Canceled \<rparr>))"

text \<open>
  Modelled from the spec: \<open>run()\<close> produces one terminal outcome, exactly once. On a
  task canceled before it ran the outcome is the cancellation failure, at once and with
  nothing sent or registered; a task that is running or has finished does not run again.
  Otherwise the task is running and the class's \<open>run\<close> starts. When the awaited promise
  is settled the second half runs and the task has finished, unless it was canceled.
\<close>

definition BaseTask_runUntilAwait ::
  "bool \<Rightarrow> string list \<Rightarrow> int list \<Rightarrow> Task \<Rightarrow> (TaskError + nat) \<times> Task" where
  "BaseTask_runUntilAwait requiresUnifiedPlan directions videoSubscriptions w =
     (case status w of
        Canceled \<Rightarrow> (Inl CanceledBeforeRunning, w)
      | Running \<Rightarrow> (Inl AlreadyRunning, w)
      | Finished \<Rightarrow> (Inl AlreadyFinished, w)
      | Idle \<Rightarrow>
          (case runUntilAwait requiresUnifiedPlan directions videoSubscriptions
                  (w\<lparr> status := Running \<rparr>) of
             (i, w') \<Rightarrow> (Inr i, w')))"

definition BaseTask_runAfterAwait :: "nat \<Rightarrow> Task \<Rightarrow> RunOutcome \<times> Task" where
  "BaseTask_runAfterAwait i w =
     (case runAfterAwait i w of
        (Suspended, w') \<Rightarrow> (Suspended, w')
      | (outcome, w') \<Rightarrow>
          (outcome, if status w' = Canceled then w' else w'\<lparr> status := Finished \<rparr>))"

section \<open>Notation and inputs of the examples\<close>


text \<open>A meeting of two, with one other participant publishing video and no local
  stream.\<close>

definition meetingOfTwo :: store where
  "meetingOfTwo r =
     \<lparr> numberOfVideoPublishingParticipantsExcludingSelf = 1,
       numberOfParticipants = 2,
       localStreamDescriptions = [] \<rparr>"

text \<open>The policy, built at time 0, after a first \<open>chooseEncodingParameters\<close> and then
  \<open>updateIndex\<close> on that meeting: the proposed map is the single layer, the map in
  effect the one committed before.\<close>

definition proposedSingleLayer :: Policy where
  "proposedSingleLayer =
     snd (updateIndex meetingOfTwo 0 (snd (chooseEncodingParameters (initialPolicy 0))))"

text \<open>A fresh task after \<open>receiveSubscribeAck\<close>: interceptor 0 registered, its promise
  pending.\<close>

definition awaitingAck :: Task where
  "awaitingAck = snd (receiveSubscribeAck initialTask)"

text \<open>A fresh task after \<open>run()\<close> up to its \<open>await\<close>, with no video subscription and
  no unified plan: running, interceptor 0 registered, its promise pending.\<close>

definition runningTask :: Task where
  "runningTask = snd (BaseTask_runUntilAwait False [] [] initialTask)"

definition closed4500 :: SignalingClientEvent where
  "closed4500 =
     \<lparr> isConnectionTerminated = True, eventType = OtherEventType, closeCode = Some 4500,
       closeReason = ''server'', messageType = OtherFrameType,
       suback = \<lparr> sdpAnswer = [] \<rparr> \<rparr>"

definition ackFrame :: SignalingClientEvent where
  "ackFrame =
     \<lparr> isConnectionTerminated = False, eventType = ReceivedSignalFrame, closeCode = None,
       closeReason = [], messageType = SUBSCRIBE_ACK,
       suback = \<lparr> sdpAnswer = ''answer'' \<rparr> \<rparr>"

section \<open>Properties of the uplink policy\<close>

subsection \<open>What the private methods leave\<close>

lemma fill_3:
  "fillEncodingParamWithBitrates s [a, b, c] =
     [''low'' \<mapsto> layer ''low'' (a > 0) (if shouldDisableSimulcast s then 1 else 4) (a * 1000),
      ''mid'' \<mapsto> layer ''mid'' (b > 0) (if shouldDisableSimulcast s then 1 else 2) (b * 1000),
      ''hi'' \<mapsto> layer ''hi'' (c > 0) 1 (c * 1000)]"
  by (simp add: fillEncodingParamWithBitrates_def NAME_ARR_ASCENDING_def elemAt_def)

lemma calc_recomputes:
  "recomputes f s \<Longrightarrow>
   snd (calculateEncodingParameters f s) =
     s\<lparr> newActiveStreams := fst (decide s),
        newQualityMap :=
          fillEncodingParamWithBitrates (s\<lparr> newActiveStreams := fst (decide s) \<rparr>) (snd (decide s)) \<rparr>"
  by (simp add: calculateEncodingParameters_def Let_def split: sum.splits)

lemma calc_skips:
  "\<not> recomputes f s \<Longrightarrow> snd (calculateEncodingParameters f s) = s"
  by (simp add: calculateEncodingParameters_def)

lemma calc_returns_map:
  "fst (calculateEncodingParameters f s) = Inr m \<Longrightarrow>
   m = newQualityMap (snd (calculateEncodingParameters f s))"
  by (auto simp: calculateEncodingParameters_def Let_def split: if_splits sum.splits)

lemma calc_keeps_uplink:
  "lastUplinkBandwidthKbps (snd (calculateEncodingParameters f s)) = lastUplinkBandwidthKbps s"
  by (cases "recomputes f s") (simp_all add: calc_recomputes calc_skips)

lemma calc_keeps_startTime:
  "startTimeMs (snd (calculateEncodingParameters f s)) = startTimeMs s"
  by (cases "recomputes f s") (simp_all add: calc_recomputes calc_skips)

lemma calc_keeps_current:
  "currentActiveStreams (snd (calculateEncodingParameters f s)) = currentActiveStreams s"
  "currentQualityMap (snd (calculateEncodingParameters f s)) = currentQualityMap s"
  by (cases "recomputes f s"; simp add: calc_recomputes calc_skips)+

lemma calc_keeps_flags:
  "shouldDisableSimulcast (snd (calculateEncodingParameters f s)) = shouldDisableSimulcast s"
  "videoIndex (snd (calculateEncodingParameters f s)) = videoIndex s"
  by (cases "recomputes f s"; simp add: calc_recomputes calc_skips)+

lemma metric_state:
  "snd (updateConnectionMetric (Num u) now1 now2 now3 s) =
     (if now3 < lastUpdatedMs s + holdTime (currentActiveStreams s) u
      then recordSample u now1 now2 s
      else snd (calculateEncodingParameters False (recordSample u now1 now2 s)))"
proof -
  have a: "lastUpdatedMs (recordSample u now1 now2 s) = lastUpdatedMs s"
    and b: "currentActiveStreams (recordSample u now1 now2 s) = currentActiveStreams s"
    by (simp_all add: recordSample_def Let_def)
  show ?thesis
  proof (cases "calculateEncodingParameters False (recordSample u now1 now2 s)")
    case (Pair res s3)
    then show ?thesis
      using calc_returns_map [of False "recordSample u now1 now2 s"]
      by (cases res) (simp_all add: updateConnectionMetric_def Let_def a b)
  qed
qed

lemma metric_uplink:
  "lastUplinkBandwidthKbps (snd (updateConnectionMetric (Num u) now1 now2 now3 s)) =
     (if now2 - (if startTimeMs s = 0 then now1 else startTimeMs s) < startupDurationMs
      then defaultUplinkBandwidthKbps else u)"
  by (simp add: metric_state calc_keeps_uplink recordSample_def Let_def)

lemma metric_startTime:
  "startTimeMs (snd (updateConnectionMetric (Num u) now1 now2 now3 s)) =
     (if startTimeMs s = 0 then now1 else startTimeMs s)"
  by (simp add: metric_state calc_keeps_startTime recordSample_def Let_def)

lemma index_state:
  "snd (updateIndex h r s) =
     snd (calculateEncodingParameters
            (numberOfVideoPublishingParticipantsExcludingSelf (h r) + 1 \<noteq> numSenders s \<or>
             shouldDisableSimulcast s \<noteq>
               (numberOfParticipants (h r) \<ge> 0 \<and> numberOfParticipants (h r) \<le> 2))
            (s\<lparr> numSenders := numberOfVideoPublishingParticipantsExcludingSelf (h r) + 1,
               shouldDisableSimulcast :=
                 (numberOfParticipants (h r) \<ge> 0 \<and> numberOfParticipants (h r) \<le> 2),
               videoIndex := Some r \<rparr>))"
  (is "_ = snd (calculateEncodingParameters ?f ?s1)")
proof (cases "calculateEncodingParameters ?f ?s1")
  case (Pair res s2)
  then show ?thesis
    using calc_returns_map [of ?f ?s1]
    by (cases res) (simp_all add: updateIndex_def Let_def)
qed

subsection \<open>Disabled simulcast: an invariant\<close>

text \<open>Whenever simulcast is disabled, the proposed map is the single layer and the
  index is set: \<open>shouldDisableSimulcast\<close> only changes in \<open>updateIndex\<close>, which then
  forces the recomputation.\<close>

lemma calc_disabled:
  "shouldDisableSimulcast s \<Longrightarrow> recomputes f s \<Longrightarrow>
   newQualityMap (snd (calculateEncodingParameters f s)) = singleLayerMap"
  by (simp add: calc_recomputes decide_def fill_3 singleLayerMap_def)

lemma calc_inv: "disabledInv s \<Longrightarrow> disabledInv (snd (calculateEncodingParameters f s))"
  unfolding disabledInv_def
  by (cases "recomputes f s") (simp_all add: calc_keeps_flags calc_disabled calc_skips)

lemma record_inv: "disabledInv s \<Longrightarrow> disabledInv (recordSample u now1 now2 s)"
  by (simp add: disabledInv_def recordSample_def Let_def)

lemma metric_inv:
  assumes "disabledInv s"
  shows "disabledInv (snd (updateConnectionMetric x now1 now2 now3 s))"
proof (cases x)
  case NaN
  with assms show ?thesis by (simp add: updateConnectionMetric_def)
next
  case (Num u)
  with assms show ?thesis by (simp add: metric_state record_inv calc_inv)
qed

lemma index_inv:
  assumes inv: "disabledInv s"
  shows "disabledInv (snd (updateIndex h r s))"
proof -
  let ?new = "numberOfParticipants (h r) \<ge> 0 \<and> numberOfParticipants (h r) \<le> 2"
  let ?f = "numberOfVideoPublishingParticipantsExcludingSelf (h r) + 1 \<noteq> numSenders s \<or>
             shouldDisableSimulcast s \<noteq> ?new"
  let ?s1 = "s\<lparr> numSenders := numberOfVideoPublishingParticipantsExcludingSelf (h r) + 1,
               shouldDisableSimulcast := ?new, videoIndex := Some r \<rparr>"
  show ?thesis
  proof (cases "shouldDisableSimulcast s")
    case True
    with inv have "disabledInv ?s1" by (simp add: disabledInv_def)
    then show ?thesis by (simp add: index_state calc_inv)
  next
    case before: False
    show ?thesis
    proof (cases ?new)
      case True
      with before have "recomputes ?f ?s1" by (simp add: recomputes_def)
      with True show ?thesis
        by (simp add: index_state disabledInv_def calc_keeps_flags calc_disabled)
    next
      case False
      then have "disabledInv ?s1" by (auto simp: disabledInv_def)
      then show ?thesis by (simp add: index_state calc_inv)
    qed
  qed
qed

lemma choose_inv: "disabledInv s \<Longrightarrow> disabledInv (snd (chooseEncodingParameters s))"
  by (simp add: disabledInv_def chooseEncodingParameters_def Let_def)

lemma resubscribe_inv: "disabledInv s \<Longrightarrow> disabledInv (snd (wantsResubscribe h now s))"
  by (auto simp: disabledInv_def wantsResubscribe_def Let_def split: option.splits)

lemma reachable_inv: "reachable s \<Longrightarrow> disabledInv s"
proof (induction rule: reachable.induct)
  case (constructed now)
  show ?case by (simp add: disabledInv_def initialPolicy_def Let_def)
qed (simp_all add: metric_inv index_inv choose_inv resubscribe_inv)

lemma index_disables:
  assumes "numberOfParticipants (h r) \<ge> 0" and "numberOfParticipants (h r) \<le> 2"
  shows "shouldDisableSimulcast (snd (updateIndex h r s))"
  using assms by (simp add: index_state calc_keeps_flags)

subsection \<open>The claims on the policy\<close>

text \<open>
  Claim C3. When the recomputation of \<open>calculateEncodingParameters\<close> runs (the gate is
  passed or the recomputation is forced) and simulcast is not disabled: with at most 4
  senders and an effective uplink of at least 700 kbps the proposed set is HiAndLow, low at
  300 kbps and high at 1200 kbps; otherwise with an uplink of at least 240 kbps it is
  MidAndLow, low at 200 kbps when the uplink is at least 350 and 150 kbps otherwise, mid at
  600 kbps with at most 6 senders and 350 kbps otherwise; otherwise it is Low, with only
  low active, at 300 kbps. The map holds bits per second.
\<close>

theorem layer_set_decision:
  assumes "\<not> shouldDisableSimulcast s" and "recomputes numSendersChanged s"
  shows "(numSenders s \<le> 4 \<and> lastUplinkBandwidthKbps s \<ge> 700 \<longrightarrow>
            newActiveStreams (snd (calculateEncodingParameters numSendersChanged s)) = kHiAndLow \<and>
            newQualityMap (snd (calculateEncodingParameters numSendersChanged s)) =
              [''low'' \<mapsto> layer ''low'' True 4 300000,
               ''mid'' \<mapsto> layer ''mid'' False 2 0,
               ''hi'' \<mapsto> layer ''hi'' True 1 1200000]) \<and>
         (\<not> (numSenders s \<le> 4 \<and> lastUplinkBandwidthKbps s \<ge> 700) \<and>
          lastUplinkBandwidthKbps s \<ge> 240 \<longrightarrow>
            newActiveStreams (snd (calculateEncodingParameters numSendersChanged s)) = kMidAndLow \<and>
            newQualityMap (snd (calculateEncodingParameters numSendersChanged s)) =
              [''low'' \<mapsto> layer ''low'' True 4
                           (if lastUplinkBandwidthKbps s \<ge> 350 then 200000 else 150000),
               ''mid'' \<mapsto> layer ''mid'' True 2 (if numSenders s \<le> 6 then 600000 else 350000),
               ''hi'' \<mapsto> layer ''hi'' False 1 0]) \<and>
         (\<not> (numSenders s \<le> 4 \<and> lastUplinkBandwidthKbps s \<ge> 700) \<and>
          \<not> lastUplinkBandwidthKbps s \<ge> 240 \<longrightarrow>
            newActiveStreams (snd (calculateEncodingParameters numSendersChanged s)) = kLow \<and>
            newQualityMap (snd (calculateEncodingParameters numSendersChanged s)) =
              [''low'' \<mapsto> layer ''low'' True 4 300000,
               ''mid'' \<mapsto> layer ''mid'' False 2 0,
               ''hi'' \<mapsto> layer ''hi'' False 1 0])"
  using assms
  by (simp add: calc_recomputes decide_def fill_3 kHiDisabledRate_def kMidDisabledRate_def)

theorem layer_set_decision_witness:
  "\<not> shouldDisableSimulcast (initialPolicy 0) \<and> recomputes True (initialPolicy 0) \<and>
   newActiveStreams (snd (calculateEncodingParameters True (initialPolicy 0))) = kHiAndLow \<and>
   newActiveStreams (snd (calculateEncodingParameters True
       ((initialPolicy 0)\<lparr> numSenders := 5, lastUplinkBandwidthKbps := 800 \<rparr>))) = kMidAndLow \<and>
   newQualityMap (snd (calculateEncodingParameters False
       ((initialPolicy 0)\<lparr> lastUplinkBandwidthKbps := 100 \<rparr>))) =
     [''low'' \<mapsto> layer ''low'' True 4 300000,
      ''mid'' \<mapsto> layer ''mid'' False 2 0,
      ''hi'' \<mapsto> layer ''hi'' False 1 0]"
  using layer_set_decision [of "initialPolicy 0" True]
        layer_set_decision [of "(initialPolicy 0)\<lparr> numSenders := 5, lastUplinkBandwidthKbps := 800 \<rparr>" True]
        layer_set_decision [of "(initialPolicy 0)\<lparr> lastUplinkBandwidthKbps := 100 \<rparr>" False]
  by (simp add: initialPolicy_def recomputes_def hysteresis_def defaultUplinkBandwidthKbps_def
        kHiDisabledRate_def Let_def)

text \<open>
  Claim C4. While simulcast is disabled (two participants or fewer), the map that
  \<open>calculateEncodingParameters\<close> leaves as proposed has exactly one active layer, at
  1,200,000 bps, and every layer has \<open>scaleResolutionDownBy\<close> 1, whatever the last uplink
  sample: when the recomputation runs, in any state; and in every state the policy can
  reach also when the gate holds the recomputation back, because the map was already
  that. In particular \<open>updateIndex\<close> with 0 to 2 participants disables simulcast and
  leaves this map.
\<close>

theorem disabled_simulcast_single_layer:
  "(shouldDisableSimulcast s \<and> (recomputes numSendersChanged s \<or> reachable s) \<longrightarrow>
      newQualityMap (snd (calculateEncodingParameters numSendersChanged s)) =
        [''low'' \<mapsto> layer ''low'' False 1 0,
         ''mid'' \<mapsto> layer ''mid'' True 1 1200000,
         ''hi'' \<mapsto> layer ''hi'' False 1 0]) \<and>
   (reachable s \<and> numberOfParticipants (h r) \<ge> 0 \<and> numberOfParticipants (h r) \<le> 2 \<longrightarrow>
      shouldDisableSimulcast (snd (updateIndex h r s)) \<and>
      newQualityMap (snd (updateIndex h r s)) =
        [''low'' \<mapsto> layer ''low'' False 1 0,
         ''mid'' \<mapsto> layer ''mid'' True 1 1200000,
         ''hi'' \<mapsto> layer ''hi'' False 1 0])"
proof -
  have first: "newQualityMap (snd (calculateEncodingParameters numSendersChanged s)) = singleLayerMap"
    if dis: "shouldDisableSimulcast s" and alt: "recomputes numSendersChanged s \<or> reachable s"
  proof (cases "recomputes numSendersChanged s")
    case True
    with dis show ?thesis by (simp add: calc_disabled)
  next
    case False
    with alt have "disabledInv s" by (simp add: reachable_inv)
    with dis False show ?thesis by (simp add: calc_skips disabledInv_def)
  qed
  have second: "shouldDisableSimulcast (snd (updateIndex h r s)) \<and>
                newQualityMap (snd (updateIndex h r s)) = singleLayerMap"
    if re: "reachable s"
      and lo: "numberOfParticipants (h r) \<ge> 0" and hi: "numberOfParticipants (h r) \<le> 2"
  proof -
    have dis: "shouldDisableSimulcast (snd (updateIndex h r s))"
      using lo hi by (rule index_disables)
    have "disabledInv (snd (updateIndex h r s))"
      using re by (simp add: reachable_inv index_inv)
    with dis show ?thesis by (simp add: disabledInv_def)
  qed
  from first second show ?thesis
    unfolding singleLayerMap_def by blast
qed

theorem disabled_simulcast_single_layer_witness:
  "reachable (initialPolicy 0) \<and>
   numberOfParticipants (meetingOfTwo 0) \<ge> 0 \<and> numberOfParticipants (meetingOfTwo 0) \<le> 2 \<and>
   shouldDisableSimulcast proposedSingleLayer \<and> reachable proposedSingleLayer \<and>
   newQualityMap proposedSingleLayer =
     [''low'' \<mapsto> layer ''low'' False 1 0,
      ''mid'' \<mapsto> layer ''mid'' True 1 1200000,
      ''hi'' \<mapsto> layer ''hi'' False 1 0] \<and>
   newQualityMap (snd (calculateEncodingParameters False
       (proposedSingleLayer\<lparr> lastUplinkBandwidthKbps := 50 \<rparr>))) =
     [''low'' \<mapsto> layer ''low'' False 1 0,
      ''mid'' \<mapsto> layer ''mid'' True 1 1200000,
      ''hi'' \<mapsto> layer ''hi'' False 1 0]"
proof -
  have r0: "reachable (initialPolicy 0)"
    by (rule reachable.constructed)
  have r1: "reachable proposedSingleLayer"
    unfolding proposedSingleLayer_def
    using r0 by (intro reachable.index reachable.choose)
  have n: "numberOfParticipants (meetingOfTwo 0) \<ge> 0 \<and> numberOfParticipants (meetingOfTwo 0) \<le> 2"
    by (simp add: meetingOfTwo_def)
  have d: "shouldDisableSimulcast (proposedSingleLayer\<lparr> lastUplinkBandwidthKbps := 50 \<rparr>)"
    using n by (simp add: proposedSingleLayer_def index_disables)
  have g: "recomputes False (proposedSingleLayer\<lparr> lastUplinkBandwidthKbps := 50 \<rparr>)"
    by (simp add: recomputes_def hysteresis_def proposedSingleLayer_def index_state
          calc_keeps_current initialPolicy_def chooseEncodingParameters_def Let_def
          kHiDisabledRate_def)
  have r2: "reachable (snd (chooseEncodingParameters (initialPolicy 0)))"
    using r0 by (rule reachable.choose)
  show ?thesis
    using r0 r1 r2 n d g
      disabled_simulcast_single_layer
        [of "snd (chooseEncodingParameters (initialPolicy 0))" False meetingOfTwo 0]
      disabled_simulcast_single_layer
        [of "proposedSingleLayer\<lparr> lastUplinkBandwidthKbps := 50 \<rparr>" False meetingOfTwo 0]
    by (simp add: proposedSingleLayer_def)
qed

text \<open>
  Claim C5. With \<open>lastUpdatedMs\<close> the time of the last transition, a valid sample whose
  hold-down reading of the clock is earlier than \<open>lastUpdatedMs + H\<close> leaves the proposed
  map and the proposed layer set as they were, and the call returns. \<open>H\<close> is 8000 ms when
  the layer set in effect is Low, 2000 ms when it is MidAndLow and the raw sample is at
  most 240 kbps or it is HiAndLow and the raw sample is at most 700 kbps, and 4000 ms
  otherwise: it is read from the layer set in effect, not the proposed one.
\<close>

theorem hold_down_suppresses_recomputation:
  assumes "now3 < lastUpdatedMs s +
             (if currentActiveStreams s = kLow then 8000
              else if (currentActiveStreams s = kMidAndLow \<and> u \<le> 240) \<or>
                      (currentActiveStreams s = kHiAndLow \<and> u \<le> 700) then 2000
              else 4000)"
  shows "fst (updateConnectionMetric (Num u) now1 now2 now3 s) = Inr () \<and>
         newQualityMap (snd (updateConnectionMetric (Num u) now1 now2 now3 s)) = newQualityMap s \<and>
         newActiveStreams (snd (updateConnectionMetric (Num u) now1 now2 now3 s)) =
           newActiveStreams s"
proof -
  have "holdTime (currentActiveStreams s) u =
          (if currentActiveStreams s = kLow then 8000
           else if (currentActiveStreams s = kMidAndLow \<and> u \<le> 240) \<or>
                   (currentActiveStreams s = kHiAndLow \<and> u \<le> 700) then 2000
           else 4000)"
    by (simp add: holdTime_def holdDownDurationMs_def kMidDisabledRate_def kHiDisabledRate_def)
  with assms have h: "now3 < lastUpdatedMs s + holdTime (currentActiveStreams s) u"
    by simp
  have "updateConnectionMetric (Num u) now1 now2 now3 s = (Inr (), recordSample u now1 now2 s)"
    using h by (simp add: updateConnectionMetric_def Let_def recordSample_def)
  then show ?thesis
    by (simp add: recordSample_def Let_def)
qed

theorem hold_down_suppresses_recomputation_witness:
  "(5000::int) < 1000 + 8000 \<and>
   newQualityMap (snd (updateConnectionMetric (Num 2000) 5000 5000 5000
       ((initialPolicy 1000)\<lparr> currentActiveStreams := kLow \<rparr>))) =
     newQualityMap ((initialPolicy 1000)\<lparr> currentActiveStreams := kLow \<rparr>) \<and>
   newActiveStreams (snd (updateConnectionMetric (Num 650) 2999 2999 2999 (initialPolicy 1000))) =
     kHiAndLow"
  using hold_down_suppresses_recomputation
          [of 5000 "(initialPolicy 1000)\<lparr> currentActiveStreams := kLow \<rparr>" 2000 5000 5000]
        hold_down_suppresses_recomputation [of 2999 "initialPolicy 1000" 650 2999 2999]
  by (simp add: initialPolicy_def Let_def)

text \<open>
  Claim C8. A valid sample whose startup reading of the clock is less than 6000 ms after
  \<open>startTimeMs\<close> (the time of the first valid sample, which this sample sets when none
  was seen) stores 1200 kbps as the effective bandwidth, not the raw value. So does any
  valid sample that follows the first valid one, taken at a non-zero time, by less than
  6000 ms: 50 kbps arriving 1000 ms after the start gives 1200 kbps.
\<close>

theorem startup_grace:
  "(now2 - (if startTimeMs s = 0 then now1 else startTimeMs s) < 6000 \<longrightarrow>
      lastUplinkBandwidthKbps (snd (updateConnectionMetric (Num u) now1 now2 now3 s)) = 1200) \<and>
   (startTimeMs s = 0 \<and> first1 \<noteq> 0 \<and> now2 - first1 < 6000 \<longrightarrow>
      lastUplinkBandwidthKbps
        (snd (updateConnectionMetric (Num u) now1 now2 now3
           (snd (updateConnectionMetric (Num u0) first1 first2 first3 s)))) = 1200)"
  by (simp add: metric_uplink metric_startTime startupDurationMs_def
        defaultUplinkBandwidthKbps_def)

theorem startup_grace_witness:
  "startTimeMs (initialPolicy 7000) = 0 \<and> (10000::int) \<noteq> 0 \<and> (11000::int) - 10000 < 6000 \<and>
   lastUplinkBandwidthKbps
     (snd (updateConnectionMetric (Num 50) 11000 11000 11000
        (snd (updateConnectionMetric (Num 900) 10000 10000 10000 (initialPolicy 7000))))) = 1200 \<and>
   lastUplinkBandwidthKbps
     (snd (updateConnectionMetric (Num 50) 11000 11000 11000
        ((initialPolicy 7000)\<lparr> startTimeMs := 10000 \<rparr>))) = 1200"
  using startup_grace [of 11000 "initialPolicy 7000" 11000 50 11000 10000 900 10000 10000]
        startup_grace [of 11000 "(initialPolicy 7000)\<lparr> startTimeMs := 10000 \<rparr>" 11000 50 11000]
  by (simp add: initialPolicy_def Let_def)

subsection \<open>wantsResubscribe\<close>











section \<open>Properties of the subscribe task\<close>

subsection \<open>The subscription repair\<close>

lemma fixUpLoop_length:
  "length (fst (fixUpLoop ds swz idx acc lg)) = length acc + length ds"
  by (induction ds arbitrary: idx acc lg) simp_all

lemma fixUpLoop_prefix:
  "i < length acc \<Longrightarrow> fst (fixUpLoop ds swz idx acc lg) ! i = acc ! i"
  by (induction ds arbitrary: idx acc lg) (simp_all add: nth_append)

lemma fixUpLoop_nth:
  "i < length ds \<Longrightarrow>
   fst (fixUpLoop ds swz idx acc lg) ! (length acc + i) =
     (if ds ! i = ''recvonly'' \<and>
         idx + length (filter (\<lambda>d. d = ''recvonly'') (take i ds)) < length swz
      then swz ! (idx + length (filter (\<lambda>d. d = ''recvonly'') (take i ds)))
      else 0)"
proof (induction ds arbitrary: idx acc lg i)
  case Nil
  then show ?case by simp
next
  case (Cons d ds)
  show ?case
  proof (cases i)
    case 0
    have "fst (fixUpLoop ds swz k (acc @ [v]) l) ! length acc = v" for k v l
      using fixUpLoop_prefix [where i = "length acc" and acc = "acc @ [v]"] by simp
    with 0 show ?thesis by simp
  next
    case (Suc j)
    with Cons.prems have j: "j < length ds" by simp
    have "fst (fixUpLoop ds swz k (acc @ [v]) l) ! (length acc + i) =
            (if ds ! j = ''recvonly'' \<and>
                k + length (filter (\<lambda>d. d = ''recvonly'') (take j ds)) < length swz
             then swz ! (k + length (filter (\<lambda>d. d = ''recvonly'') (take j ds)))
             else 0)" for k v l
      using Cons.IH [OF j, where acc = "acc @ [v]" and idx = k and lg = l] Suc by simp
    with Suc show ?thesis by simp
  qed
qed

lemma fixUp_fst:
  "fst (fixUpSubscriptionOrder directions videoSubscriptions) =
     fst (fixUpLoop directions (filter (\<lambda>value. value \<noteq> 0) videoSubscriptions) 0 [] [])"
  by (simp add: fixUpSubscriptionOrder_def Let_def split: prod.splits)

text \<open>
  Claim C1. For every direction list of the SDP's video sections and every subscription
  array, the array repaired by \<open>fixUpSubscriptionOrder\<close> has one entry per section; a
  section that is not \<open>recvonly\<close> holds 0; the \<open>recvonly\<close> section preceded by \<open>k\<close>
  other \<open>recvonly\<close> sections holds the \<open>k\<close>-th non-zero value of the input, in the
  input's order, and 0 when the input has no more than \<open>k\<close> non-zero values. The
  repaired array is a function of the two arguments alone.
\<close>

theorem fixUpSubscriptionOrder_aligns:
  "length (fst (fixUpSubscriptionOrder directions videoSubscriptions)) = length directions \<and>
   (\<forall>i < length directions. directions ! i \<noteq> ''recvonly'' \<longrightarrow>
      fst (fixUpSubscriptionOrder directions videoSubscriptions) ! i = 0) \<and>
   (\<forall>i < length directions. directions ! i = ''recvonly'' \<longrightarrow>
      fst (fixUpSubscriptionOrder directions videoSubscriptions) ! i =
        (if length (filter (\<lambda>d. d = ''recvonly'') (take i directions))
              < length (filter (\<lambda>value. value \<noteq> 0) videoSubscriptions)
         then filter (\<lambda>value. value \<noteq> 0) videoSubscriptions
                ! length (filter (\<lambda>d. d = ''recvonly'') (take i directions))
         else 0))"
  using fixUpLoop_nth [where acc = "[]" and idx = 0 and ds = directions
                        and swz = "filter (\<lambda>value. value \<noteq> 0) videoSubscriptions" and lg = "[]"]
  by (simp add: fixUp_fst fixUpLoop_length)

theorem fixUpSubscriptionOrder_aligns_witness:
  "fst (fixUpSubscriptionOrder
          [''sendrecv'', ''recvonly'', ''inactive'', ''recvonly'', ''recvonly''] [0, 7, 0, 9]) ! 0 = 0 \<and>
   fst (fixUpSubscriptionOrder
          [''sendrecv'', ''recvonly'', ''inactive'', ''recvonly'', ''recvonly''] [0, 7, 0, 9]) ! 3 = 9 \<and>
   fst (fixUpSubscriptionOrder
          [''sendrecv'', ''recvonly'', ''inactive'', ''recvonly'', ''recvonly''] [0, 7, 0, 9]) ! 4 = 0 \<and>
   fst (fixUpSubscriptionOrder
          [''sendrecv'', ''recvonly'', ''inactive'', ''recvonly'', ''recvonly''] [0, 7, 0, 9]) =
     [0, 7, 0, 9, 0]"
proof -
  let ?ds = "[''sendrecv'', ''recvonly'', ''inactive'', ''recvonly'', ''recvonly'']"
  let ?vs = "[0, 7, 0, 9] :: int list"
  note t = fixUpSubscriptionOrder_aligns [of ?ds ?vs]
  have a: "fst (fixUpSubscriptionOrder ?ds ?vs) ! 0 = 0"
    using t by simp
  have b: "fst (fixUpSubscriptionOrder ?ds ?vs) ! 3 = 9"
    using t by (simp add: eval_nat_numeral)
  have c: "fst (fixUpSubscriptionOrder ?ds ?vs) ! 4 = 0"
    using t by (simp add: eval_nat_numeral)
  have d: "fst (fixUpSubscriptionOrder ?ds ?vs) = [0, 7, 0, 9, 0]"
    by (simp add: fixUpSubscriptionOrder_def)
  from a b c d show ?thesis by blast
qed

subsection \<open>The interceptor and cancellation\<close>

lemma handle_terminated:
  "isConnectionTerminated event \<Longrightarrow>
   handleSignalingClientEvent i event w =
     w\<lparr> logged := logged w @ [WarnConnectionTerminated (closeCode event) (closeReason event)],
        handledStatus := handledStatus w @
          [(statusCodeFor (closeCode event),
            ConnectionTerminated (closeCode event) (closeReason event))] \<rparr>"
  by (simp add: handleSignalingClientEvent_def)

lemma handle_other:
  "\<not> isConnectionTerminated event \<Longrightarrow>
   eventType event \<noteq> ReceivedSignalFrame \<or> messageType event \<noteq> SUBSCRIBE_ACK \<Longrightarrow>
   handleSignalingClientEvent i event w = w"
  by (auto simp: handleSignalingClientEvent_def)

lemma handle_ack:
  "\<not> isConnectionTerminated event \<Longrightarrow> eventType event = ReceivedSignalFrame \<Longrightarrow>
   messageType event = SUBSCRIBE_ACK \<Longrightarrow>
   handleSignalingClientEvent i event w = resolve i (suback event) (removeObserver i w)"
  by (simp add: handleSignalingClientEvent_def)

lemma runAfterAwait_fst:
  "fst (runAfterAwait i w) =
     (case waits w i of Pending \<Rightarrow> Suspended | Resolved f \<Rightarrow> Fulfilled
      | Rejected err \<Rightarrow> Failed err)"
  by (simp add: runAfterAwait_def split: Promise.splits)

lemma awaitingAck_state:
  "awaitingAck = initialTask\<lparr> interceptorsCreated := 1, registered := {0}, taskCanceler := Some 0 \<rparr>"
  by (simp add: awaitingAck_def receiveSubscribeAck_def registerObserver_def initialTask_def
        Let_def fun_upd_idem)

lemma cancel_idem: "cancel (cancel w) = cancel w"
  by (simp add: cancel_def split: option.splits)

lemma cancel_calls:
  "removeObserverCalls (cancel w) =
     (case taskCanceler w of None \<Rightarrow> removeObserverCalls w
      | Some i \<Rightarrow> removeObserverCalls w @ [i])"
  by (simp add: cancel_def Interceptor_cancel_def reject_def removeObserver_def
        split: option.splits)

lemma cancel_pending:
  "taskCanceler w = Some i \<Longrightarrow> waits w i = Pending \<Longrightarrow>
   cancel w = w\<lparr> registered := registered w - {i},
                removeObserverCalls := removeObserverCalls w @ [i],
                waits := (waits w)(i := Rejected CanceledWhileWaiting),
                taskCanceler := None \<rparr>"
  by (simp add: cancel_def Interceptor_cancel_def reject_def removeObserver_def)

lemma cancel_settled:
  "taskCanceler w = Some i \<Longrightarrow> waits w i \<noteq> Pending \<Longrightarrow>
   cancel w = w\<lparr> registered := registered w - {i},
                removeObserverCalls := removeObserverCalls w @ [i],
                taskCanceler := None \<rparr>"
  by (simp add: cancel_def Interceptor_cancel_def reject_def removeObserver_def)

lemma receive_state:
  "receiveSubscribeAck w =
     (interceptorsCreated w,
      w\<lparr> interceptorsCreated := interceptorsCreated w + 1,
         waits := (waits w)(interceptorsCreated w := Pending),
         registered := insert (interceptorsCreated w) (registered w),
         taskCanceler := Some (interceptorsCreated w) \<rparr>)"
  by (simp add: receiveSubscribeAck_def registerObserver_def Let_def)

lemma handle_keeps_wait:
  assumes "isConnectionTerminated event \<or> eventType event \<noteq> ReceivedSignalFrame \<or>
           messageType event \<noteq> SUBSCRIBE_ACK"
  shows "waits (handleSignalingClientEvent i event w) = waits w"
    and "registered (handleSignalingClientEvent i event w) = registered w"
  using assms by (auto simp: handleSignalingClientEvent_def)

lemma fold_keeps_wait:
  "\<forall>event \<in> set events. isConnectionTerminated event \<or> eventType event \<noteq> ReceivedSignalFrame \<or>
                          messageType event \<noteq> SUBSCRIBE_ACK \<Longrightarrow>
   waits (fold (handleSignalingClientEvent i) events w) = waits w \<and>
   registered (fold (handleSignalingClientEvent i) events w) = registered w"
  by (induction events arbitrary: w) (simp_all add: handle_keeps_wait)

lemma cancel_keeps_status: "status (cancel w) = status w"
  by (simp add: cancel_def Interceptor_cancel_def reject_def removeObserver_def
        split: option.splits)

lemma BaseTask_cancel_settled:
  "status w = Canceled \<or> status w = Finished \<Longrightarrow> BaseTask_cancel w = w"
  by (simp add: BaseTask_cancel_def)

lemma BaseTask_cancel_status:
  "status (BaseTask_cancel w) = Canceled \<or> status (BaseTask_cancel w) = Finished"
  by (simp add: BaseTask_cancel_def cancel_keeps_status)

lemma BaseTask_cancel_idem: "BaseTask_cancel (BaseTask_cancel w) = BaseTask_cancel w"
  using BaseTask_cancel_status [of w] by (rule BaseTask_cancel_settled)

lemma BaseTask_cancel_calls:
  "length (removeObserverCalls (BaseTask_cancel w)) \<le> length (removeObserverCalls w) + 1"
  by (simp add: BaseTask_cancel_def cancel_calls split: option.splits)

lemma BaseTask_cancel_idle:
  "status w = Idle \<Longrightarrow> taskCanceler w = None \<Longrightarrow> BaseTask_cancel w = w\<lparr> status := Canceled \<rparr>"
  by (simp add: BaseTask_cancel_def cancel_def)

lemma BaseTask_run_canceled:
  "status w = Canceled \<Longrightarrow>
   BaseTask_runUntilAwait p ds vs w = (Inl CanceledBeforeRunning, w)"
  by (simp add: BaseTask_runUntilAwait_def)

lemma runUntilAwait_state:
  "runUntilAwait p ds vs w =
     (interceptorsCreated w,
      w\<lparr> logged := logged w @ (if p then snd (fixUpSubscriptionOrder ds vs) else []),
         subscribed := subscribed w @ [if p then fst (fixUpSubscriptionOrder ds vs) else vs],
         interceptorsCreated := interceptorsCreated w + 1,
         waits := (waits w)(interceptorsCreated w := Pending),
         registered := insert (interceptorsCreated w) (registered w),
         taskCanceler := Some (interceptorsCreated w) \<rparr>)"
  by (cases "fixUpSubscriptionOrder ds vs") (simp add: runUntilAwait_def receive_state)

lemma BaseTask_run_idle:
  "status w = Idle \<Longrightarrow>
   BaseTask_runUntilAwait p ds vs w =
     (Inr (interceptorsCreated w),
      w\<lparr> status := Running,
         logged := logged w @ (if p then snd (fixUpSubscriptionOrder ds vs) else []),
         subscribed := subscribed w @ [if p then fst (fixUpSubscriptionOrder ds vs) else vs],
         interceptorsCreated := interceptorsCreated w + 1,
         waits := (waits w)(interceptorsCreated w := Pending),
         registered := insert (interceptorsCreated w) (registered w),
         taskCanceler := Some (interceptorsCreated w) \<rparr>)"
  by (simp add: BaseTask_runUntilAwait_def runUntilAwait_state)

lemma BaseTask_runAfterAwait_fst:
  "fst (BaseTask_runAfterAwait i w) = fst (runAfterAwait i w)"
  by (cases "runAfterAwait i w"; cases "fst (runAfterAwait i w)")
     (auto simp: BaseTask_runAfterAwait_def split: RunOutcome.splits)

lemma runAfterAwait_keeps_status: "status (snd (runAfterAwait i w)) = status w"
  by (simp add: runAfterAwait_def split: Promise.splits)

lemma BaseTask_runAfterAwait_finishes:
  "waits w i \<noteq> Pending \<Longrightarrow> status w \<noteq> Canceled \<Longrightarrow>
   status (snd (BaseTask_runAfterAwait i w)) = Finished"
  by (cases "waits w i") (simp_all add: BaseTask_runAfterAwait_def runAfterAwait_def)

lemma runningTask_state:
  "runningTask =
     initialTask\<lparr> status := Running, subscribed := [[]], interceptorsCreated := 1,
       registered := {0}, taskCanceler := Some 0 \<rparr>"
  by (simp add: runningTask_def BaseTask_run_idle initialTask_def fun_upd_idem)

lemma ack_settles:
  assumes "taskCanceler w = Some i" and "waits w i = Pending"
    and "\<not> isConnectionTerminated event" and "eventType event = ReceivedSignalFrame"
    and "messageType event = SUBSCRIBE_ACK"
  shows "handleSignalingClientEvent i event w =
           w\<lparr> registered := registered w - {i},
              removeObserverCalls := removeObserverCalls w @ [i],
              waits := (waits w)(i := Resolved (suback event)) \<rparr>"
  using assms by (simp add: handle_ack resolve_def removeObserver_def)

text \<open>
  Claim C2, as amended. On a connection-terminated event the interceptor logs one warning
  and hands one status to the status handler, the code chosen from the close code, and
  does nothing else: the task is otherwise as before, field for field. In particular every
  promise, the observer set, the calls of \<open>removeObserver\<close> and \<open>taskCanceler\<close> are
  unchanged, and \<open>run\<close> is no further than it was.
\<close>

theorem termination_surfaces_status_only:
  assumes "isConnectionTerminated event"
  shows "handleSignalingClientEvent i event w =
           w\<lparr> logged := logged w @
                  [WarnConnectionTerminated (closeCode event) (closeReason event)],
              handledStatus := handledStatus w @
                  [(statusCodeFor (closeCode event),
                    ConnectionTerminated (closeCode event) (closeReason event))] \<rparr> \<and>
         handledStatus (handleSignalingClientEvent i event w) =
           handledStatus w @ [(statusCodeFor (closeCode event),
                               ConnectionTerminated (closeCode event) (closeReason event))] \<and>
         waits (handleSignalingClientEvent i event w) = waits w \<and>
         registered (handleSignalingClientEvent i event w) = registered w \<and>
         removeObserverCalls (handleSignalingClientEvent i event w) = removeObserverCalls w \<and>
         taskCanceler (handleSignalingClientEvent i event w) = taskCanceler w \<and>
         fst (runAfterAwait i (handleSignalingClientEvent i event w)) = fst (runAfterAwait i w) \<and>
         fst (BaseTask_runAfterAwait i (handleSignalingClientEvent i event w)) =
           fst (BaseTask_runAfterAwait i w)"
  using assms by (simp add: handle_terminated runAfterAwait_fst BaseTask_runAfterAwait_fst)

theorem termination_surfaces_status_only_witness:
  "isConnectionTerminated closed4500 \<and>
   handledStatus (handleSignalingClientEvent 0 closed4500 awaitingAck) =
     [(SignalingInternalServerError, ConnectionTerminated (Some 4500) ''server'')] \<and>
   logged (handleSignalingClientEvent 0 closed4500 awaitingAck) =
     [WarnConnectionTerminated (Some 4500) ''server''] \<and>
   subscribed (handleSignalingClientEvent 0 closed4500 awaitingAck) = [] \<and>
   waits (handleSignalingClientEvent 0 closed4500 awaitingAck) 0 = Pending"
  using termination_surfaces_status_only [of closed4500 0 awaitingAck]
  by (simp add: closed4500_def awaitingAck_state initialTask_def statusCodeFor_def)

text \<open>
  Claim C2, as stated, fails: a task awaiting the acknowledgement takes a termination with
  close code 4500; afterwards its promise is still pending, its observer still registered,
  \<open>removeObserver\<close> was not called, and \<open>run\<close> is still suspended. This is so after
  \<open>receiveSubscribeAck\<close> taken alone, and after \<open>run()\<close> on a fresh task, which is then
  still running.
\<close>

theorem termination_leaves_wait_pending_counterexample:
  "taskCanceler awaitingAck = Some 0 \<and> 0 \<in> registered awaitingAck \<and>
   waits awaitingAck 0 = Pending \<and> isConnectionTerminated closed4500 \<and>
   waits (handleSignalingClientEvent 0 closed4500 awaitingAck) 0 = Pending \<and>
   0 \<in> registered (handleSignalingClientEvent 0 closed4500 awaitingAck) \<and>
   removeObserverCalls (handleSignalingClientEvent 0 closed4500 awaitingAck) = [] \<and>
   fst (runAfterAwait 0 (handleSignalingClientEvent 0 closed4500 awaitingAck)) = Suspended \<and>
   status runningTask = Running \<and> taskCanceler runningTask = Some 0 \<and>
   0 \<in> registered runningTask \<and> waits runningTask 0 = Pending \<and>
   waits (handleSignalingClientEvent 0 closed4500 runningTask) 0 = Pending \<and>
   0 \<in> registered (handleSignalingClientEvent 0 closed4500 runningTask) \<and>
   removeObserverCalls (handleSignalingClientEvent 0 closed4500 runningTask) = [] \<and>
   status (handleSignalingClientEvent 0 closed4500 runningTask) = Running \<and>
   fst (BaseTask_runAfterAwait 0 (handleSignalingClientEvent 0 closed4500 runningTask)) =
     Suspended"
  by (simp add: handle_terminated closed4500_def awaitingAck_state runningTask_state
        initialTask_def runAfterAwait_fst BaseTask_runAfterAwait_fst)

text \<open>
  Claim C6. On a connection-terminated event with close code \<open>c\<close>, the one status handed
  to the status handler is SignalingInternalServerError when \<open>4500 \<le> c < 4600\<close>, and
  TaskFailed for every other close code.
\<close>

theorem termination_status_by_close_code:
  assumes "isConnectionTerminated event" and "closeCode event = Some c"
  shows "handledStatus (handleSignalingClientEvent i event w) =
           handledStatus w @
             [(if 4500 \<le> c \<and> c < 4600 then SignalingInternalServerError else TaskFailed,
               ConnectionTerminated (Some c) (closeReason event))]"
  using assms by (simp add: handle_terminated statusCodeFor_def)

theorem termination_status_by_close_code_witness:
  "isConnectionTerminated closed4500 \<and> closeCode closed4500 = Some 4500 \<and>
   handledStatus (handleSignalingClientEvent 0 closed4500 awaitingAck) =
     [(SignalingInternalServerError, ConnectionTerminated (Some 4500) ''server'')] \<and>
   handledStatus (handleSignalingClientEvent 0 (closed4500\<lparr> closeCode := Some 4600 \<rparr>) awaitingAck) =
     [(TaskFailed, ConnectionTerminated (Some 4600) ''server'')] \<and>
   handledStatus (handleSignalingClientEvent 0 (closed4500\<lparr> closeCode := Some 4599 \<rparr>) awaitingAck) =
     [(SignalingInternalServerError, ConnectionTerminated (Some 4599) ''server'')] \<and>
   handledStatus (handleSignalingClientEvent 0 (closed4500\<lparr> closeCode := Some 1006 \<rparr>) awaitingAck) =
     [(TaskFailed, ConnectionTerminated (Some 1006) ''server'')]"
  using termination_status_by_close_code [of closed4500 4500 0 awaitingAck]
        termination_status_by_close_code [of "closed4500\<lparr> closeCode := Some 4600 \<rparr>" 4600 0 awaitingAck]
        termination_status_by_close_code [of "closed4500\<lparr> closeCode := Some 4599 \<rparr>" 4599 0 awaitingAck]
        termination_status_by_close_code [of "closed4500\<lparr> closeCode := Some 1006 \<rparr>" 1006 0 awaitingAck]
  by (simp add: closed4500_def awaitingAck_state initialTask_def)

text \<open>
  Claim C7. Neither the class's \<open>cancel\<close> nor the \<open>cancel()\<close> of the task has a
  branch that throws: both are total functions of the task. For the class's \<open>cancel\<close>: a
  second one changes nothing, and the two together call \<open>removeObserver\<close> at most once;
  on a task awaiting the acknowledgement they call it exactly once, and the wait is
  rejected; after the acknowledgement has settled the wait it leaves every promise, the
  observer set and the statuses handed over as they are (its \<open>removeObserver\<close> finds the
  observer gone, its \<open>reject\<close> a settled promise), and \<open>run\<close> is fulfilled with or
  without it. For \<open>cancel()\<close> on the task, through the base task: the same holds, a
  running task canceled while it waits fails with the cancellation, and once \<open>run\<close> has
  finished \<open>cancel()\<close> returns the task as it is.
\<close>

theorem cancel_twice_tears_down_once:
  "cancel (cancel w) = cancel w \<and>
   length (removeObserverCalls (cancel (cancel w))) \<le> length (removeObserverCalls w) + 1 \<and>
   (taskCanceler w = Some i \<and> waits w i = Pending \<longrightarrow>
      waits (cancel w) i = Rejected CanceledWhileWaiting \<and>
      i \<notin> registered (cancel w) \<and>
      removeObserverCalls (cancel (cancel w)) = removeObserverCalls w @ [i]) \<and>
   (taskCanceler w = Some i \<and> waits w i = Pending \<and>
    \<not> isConnectionTerminated event \<and> eventType event = ReceivedSignalFrame \<and>
    messageType event = SUBSCRIBE_ACK \<longrightarrow>
      waits (handleSignalingClientEvent i event w) i = Resolved (suback event) \<and>
      i \<notin> registered (handleSignalingClientEvent i event w) \<and>
      waits (cancel (handleSignalingClientEvent i event w)) =
        waits (handleSignalingClientEvent i event w) \<and>
      registered (cancel (handleSignalingClientEvent i event w)) =
        registered (handleSignalingClientEvent i event w) \<and>
      handledStatus (cancel (handleSignalingClientEvent i event w)) =
        handledStatus (handleSignalingClientEvent i event w) \<and>
      fst (runAfterAwait i (handleSignalingClientEvent i event w)) = Fulfilled \<and>
      fst (runAfterAwait i (cancel (handleSignalingClientEvent i event w))) = Fulfilled) \<and>
   BaseTask_cancel (BaseTask_cancel w) = BaseTask_cancel w \<and>
   length (removeObserverCalls (BaseTask_cancel (BaseTask_cancel w)))
     \<le> length (removeObserverCalls w) + 1 \<and>
   (status w = Running \<and> taskCanceler w = Some i \<and> waits w i = Pending \<longrightarrow>
      waits (BaseTask_cancel w) i = Rejected CanceledWhileWaiting \<and>
      i \<notin> registered (BaseTask_cancel w) \<and>
      removeObserverCalls (BaseTask_cancel (BaseTask_cancel w)) = removeObserverCalls w @ [i] \<and>
      BaseTask_runAfterAwait i (BaseTask_cancel w) =
        (Failed CanceledWhileWaiting, BaseTask_cancel w)) \<and>
   (status w = Finished \<longrightarrow> BaseTask_cancel w = w) \<and>
   (status w = Running \<and> taskCanceler w = Some i \<and> waits w i = Pending \<and>
    \<not> isConnectionTerminated event \<and> eventType event = ReceivedSignalFrame \<and>
    messageType event = SUBSCRIBE_ACK \<longrightarrow>
      fst (BaseTask_runAfterAwait i (handleSignalingClientEvent i event w)) = Fulfilled \<and>
      status (snd (BaseTask_runAfterAwait i (handleSignalingClientEvent i event w))) = Finished \<and>
      BaseTask_cancel (snd (BaseTask_runAfterAwait i (handleSignalingClientEvent i event w))) =
        snd (BaseTask_runAfterAwait i (handleSignalingClientEvent i event w)) \<and>
      waits (BaseTask_cancel (handleSignalingClientEvent i event w)) =
        waits (handleSignalingClientEvent i event w) \<and>
      registered (BaseTask_cancel (handleSignalingClientEvent i event w)) =
        registered (handleSignalingClientEvent i event w) \<and>
      fst (BaseTask_runAfterAwait i (BaseTask_cancel (handleSignalingClientEvent i event w))) =
        Fulfilled)"
proof -
  have once: "length (removeObserverCalls (cancel (cancel w))) \<le> length (removeObserverCalls w) + 1"
    by (simp add: cancel_idem cancel_calls split: option.splits)
  have before: "waits (cancel w) i = Rejected CanceledWhileWaiting \<and>
                i \<notin> registered (cancel w) \<and>
                removeObserverCalls (cancel (cancel w)) = removeObserverCalls w @ [i]"
    if "taskCanceler w = Some i" and "waits w i = Pending"
    unfolding cancel_idem using that by (simp add: cancel_pending)
  have after: "waits (handleSignalingClientEvent i event w) i = Resolved (suback event) \<and>
      i \<notin> registered (handleSignalingClientEvent i event w) \<and>
      waits (cancel (handleSignalingClientEvent i event w)) =
        waits (handleSignalingClientEvent i event w) \<and>
      registered (cancel (handleSignalingClientEvent i event w)) =
        registered (handleSignalingClientEvent i event w) \<and>
      handledStatus (cancel (handleSignalingClientEvent i event w)) =
        handledStatus (handleSignalingClientEvent i event w) \<and>
      fst (runAfterAwait i (handleSignalingClientEvent i event w)) = Fulfilled \<and>
      fst (runAfterAwait i (cancel (handleSignalingClientEvent i event w))) = Fulfilled"
    if tc: "taskCanceler w = Some i" and pe: "waits w i = Pending"
      and e1: "\<not> isConnectionTerminated event" and e2: "eventType event = ReceivedSignalFrame"
      and e3: "messageType event = SUBSCRIBE_ACK"
  proof -
    let ?w' = "handleSignalingClientEvent i event w"
    note w' = ack_settles [OF tc pe e1 e2 e3]
    have tc': "taskCanceler ?w' = Some i" and set': "waits ?w' i \<noteq> Pending"
      using tc by (simp_all add: w')
    show ?thesis
      by (simp add: cancel_settled [OF tc' set'] runAfterAwait_fst) (simp add: w')
  qed
  have base_once: "length (removeObserverCalls (BaseTask_cancel (BaseTask_cancel w)))
                     \<le> length (removeObserverCalls w) + 1"
    unfolding BaseTask_cancel_idem by (rule BaseTask_cancel_calls)
  have base_before: "waits (BaseTask_cancel w) i = Rejected CanceledWhileWaiting \<and>
      i \<notin> registered (BaseTask_cancel w) \<and>
      removeObserverCalls (BaseTask_cancel (BaseTask_cancel w)) = removeObserverCalls w @ [i] \<and>
      BaseTask_runAfterAwait i (BaseTask_cancel w) =
        (Failed CanceledWhileWaiting, BaseTask_cancel w)"
    if st: "status w = Running" and tc: "taskCanceler w = Some i" and pe: "waits w i = Pending"
  proof -
    have c: "BaseTask_cancel w =
               w\<lparr> status := Canceled, registered := registered w - {i},
                  removeObserverCalls := removeObserverCalls w @ [i],
                  waits := (waits w)(i := Rejected CanceledWhileWaiting),
                  taskCanceler := None \<rparr>"
      using st tc pe by (simp add: BaseTask_cancel_def cancel_pending)
    show ?thesis
      unfolding BaseTask_cancel_idem
      by (simp add: c BaseTask_runAfterAwait_def runAfterAwait_def)
  qed
  have base_after:
    "fst (BaseTask_runAfterAwait i (handleSignalingClientEvent i event w)) = Fulfilled \<and>
      status (snd (BaseTask_runAfterAwait i (handleSignalingClientEvent i event w))) = Finished \<and>
      BaseTask_cancel (snd (BaseTask_runAfterAwait i (handleSignalingClientEvent i event w))) =
        snd (BaseTask_runAfterAwait i (handleSignalingClientEvent i event w)) \<and>
      waits (BaseTask_cancel (handleSignalingClientEvent i event w)) =
        waits (handleSignalingClientEvent i event w) \<and>
      registered (BaseTask_cancel (handleSignalingClientEvent i event w)) =
        registered (handleSignalingClientEvent i event w) \<and>
      fst (BaseTask_runAfterAwait i (BaseTask_cancel (handleSignalingClientEvent i event w))) =
        Fulfilled"
    if st: "status w = Running" and tc: "taskCanceler w = Some i" and pe: "waits w i = Pending"
      and e1: "\<not> isConnectionTerminated event" and e2: "eventType event = ReceivedSignalFrame"
      and e3: "messageType event = SUBSCRIBE_ACK"
  proof -
    let ?w' = "handleSignalingClientEvent i event w"
    note w' = ack_settles [OF tc pe e1 e2 e3]
    have tc': "taskCanceler ?w' = Some i" and set': "waits ?w' i \<noteq> Pending"
      and st': "status ?w' = Running" and res: "waits ?w' i = Resolved (suback event)"
      using tc st by (simp_all add: w')
    have fin: "status (snd (BaseTask_runAfterAwait i ?w')) = Finished"
      using set' st' by (simp add: BaseTask_runAfterAwait_finishes)
    have c: "BaseTask_cancel ?w' =
               ?w'\<lparr> status := Canceled, registered := registered ?w' - {i},
                    removeObserverCalls := removeObserverCalls ?w' @ [i],
                    taskCanceler := None \<rparr>"
      using st' by (simp add: BaseTask_cancel_def cancel_settled tc' set')
    have gone: "registered ?w' - {i} = registered ?w'"
      by (simp add: w')
    show ?thesis
      using fin res
      by (simp add: BaseTask_cancel_settled BaseTask_runAfterAwait_fst runAfterAwait_fst c gone)
  qed
  from once before after base_once base_before base_after show ?thesis
    by (simp add: cancel_idem BaseTask_cancel_idem BaseTask_cancel_settled)
qed

theorem cancel_twice_tears_down_once_witness:
  "taskCanceler awaitingAck = Some 0 \<and> waits awaitingAck 0 = Pending \<and>
   \<not> isConnectionTerminated ackFrame \<and> eventType ackFrame = ReceivedSignalFrame \<and>
   messageType ackFrame = SUBSCRIBE_ACK \<and>
   removeObserverCalls (cancel (cancel awaitingAck)) = [0] \<and>
   waits (cancel awaitingAck) 0 = Rejected CanceledWhileWaiting \<and>
   waits (cancel (handleSignalingClientEvent 0 ackFrame awaitingAck)) 0 =
     Resolved \<lparr> sdpAnswer = ''answer'' \<rparr> \<and>
   fst (runAfterAwait 0 (cancel (handleSignalingClientEvent 0 ackFrame awaitingAck))) = Fulfilled \<and>
   status runningTask = Running \<and> taskCanceler runningTask = Some 0 \<and>
   waits runningTask 0 = Pending \<and>
   removeObserverCalls (BaseTask_cancel (BaseTask_cancel runningTask)) = [0] \<and>
   fst (BaseTask_runAfterAwait 0 (BaseTask_cancel runningTask)) = Failed CanceledWhileWaiting \<and>
   fst (BaseTask_runAfterAwait 0 (handleSignalingClientEvent 0 ackFrame runningTask)) = Fulfilled \<and>
   BaseTask_cancel (snd (BaseTask_runAfterAwait 0 (handleSignalingClientEvent 0 ackFrame runningTask))) =
     snd (BaseTask_runAfterAwait 0 (handleSignalingClientEvent 0 ackFrame runningTask))"
proof -
  have w: "taskCanceler awaitingAck = Some 0 \<and> waits awaitingAck 0 = Pending"
    and c: "removeObserverCalls awaitingAck = []"
    by (simp_all add: awaitingAck_state initialTask_def)
  have r: "status runningTask = Running \<and> taskCanceler runningTask = Some 0 \<and>
           waits runningTask 0 = Pending"
    and rc: "removeObserverCalls runningTask = []"
    by (simp_all add: runningTask_state initialTask_def)
  have e: "\<not> isConnectionTerminated ackFrame \<and> eventType ackFrame = ReceivedSignalFrame \<and>
           messageType ackFrame = SUBSCRIBE_ACK"
    and f: "suback ackFrame = \<lparr> sdpAnswer = ''answer'' \<rparr>"
    by (simp_all add: ackFrame_def)
  note t = cancel_twice_tears_down_once [of awaitingAck 0 ackFrame]
  note u = cancel_twice_tears_down_once [of runningTask 0 ackFrame]
  have a1: "removeObserverCalls (cancel (cancel awaitingAck)) = removeObserverCalls awaitingAck @ [0]"
    using t w by blast
  have a2: "waits (cancel awaitingAck) 0 = Rejected CanceledWhileWaiting"
    using t w by blast
  have a3: "waits (cancel (handleSignalingClientEvent 0 ackFrame awaitingAck)) 0 =
              Resolved (suback ackFrame)"
    using t w e by metis
  have a4: "fst (runAfterAwait 0 (cancel (handleSignalingClientEvent 0 ackFrame awaitingAck))) =
              Fulfilled"
    using t w e by blast
  have b1: "removeObserverCalls (BaseTask_cancel (BaseTask_cancel runningTask)) =
              removeObserverCalls runningTask @ [0]"
    using u r by blast
  have b2: "BaseTask_runAfterAwait 0 (BaseTask_cancel runningTask) =
              (Failed CanceledWhileWaiting, BaseTask_cancel runningTask)"
    using u r by blast
  have b3: "fst (BaseTask_runAfterAwait 0 (handleSignalingClientEvent 0 ackFrame runningTask)) =
              Fulfilled"
    using u r e by blast
  have b4: "BaseTask_cancel
              (snd (BaseTask_runAfterAwait 0 (handleSignalingClientEvent 0 ackFrame runningTask))) =
            snd (BaseTask_runAfterAwait 0 (handleSignalingClientEvent 0 ackFrame runningTask))"
    using u r e by blast
  show ?thesis
    using w e r a1 a2 a3 a4 b1 b2 b3 b4 by (simp add: c rc f)
qed

text \<open>
  Claim C10, as amended. On a task that has not run, \<open>taskCanceler\<close> still null, the
  class's \<open>cancel\<close> does nothing, so \<open>cancel()\<close> removes nothing and rejects no wait;
  but it marks the task canceled. A \<open>run()\<close> that follows settles at once with the
  cancellation failure and leaves the task as it is: no subscribe frame is sent,
  \<open>receiveSubscribeAck\<close> is not reached, no observer is registered. A second
  \<open>cancel()\<close> changes nothing. Without the \<open>cancel()\<close>, \<open>run()\<close> registers its
  observer and stays suspended, the observer registered, through any events none of
  which is a subscribe acknowledgement.
\<close>

theorem cancel_before_run_cancels_the_task:
  assumes "status w = Idle" and "taskCanceler w = None"
  shows "cancel w = w \<and>
         BaseTask_cancel w = w\<lparr> status := Canceled \<rparr> \<and>
         BaseTask_cancel (BaseTask_cancel w) = BaseTask_cancel w \<and>
         BaseTask_runUntilAwait requiresUnifiedPlan directions videoSubscriptions
             (BaseTask_cancel w) =
           (Inl CanceledBeforeRunning, w\<lparr> status := Canceled \<rparr>) \<and>
         fst (BaseTask_runUntilAwait requiresUnifiedPlan directions videoSubscriptions w) =
           Inr (interceptorsCreated w) \<and>
         interceptorsCreated w \<in>
           registered (snd (BaseTask_runUntilAwait requiresUnifiedPlan directions
                              videoSubscriptions w)) \<and>
         taskCanceler (snd (BaseTask_runUntilAwait requiresUnifiedPlan directions
                              videoSubscriptions w)) = Some (interceptorsCreated w) \<and>
         ((\<forall>event \<in> set events.
              isConnectionTerminated event \<or> eventType event \<noteq> ReceivedSignalFrame \<or>
              messageType event \<noteq> SUBSCRIBE_ACK) \<longrightarrow>
            fst (BaseTask_runAfterAwait (interceptorsCreated w)
                   (fold (handleSignalingClientEvent (interceptorsCreated w)) events
                      (snd (BaseTask_runUntilAwait requiresUnifiedPlan directions
                              videoSubscriptions w)))) = Suspended \<and>
            interceptorsCreated w \<in>
              registered (fold (handleSignalingClientEvent (interceptorsCreated w)) events
                            (snd (BaseTask_runUntilAwait requiresUnifiedPlan directions
                                    videoSubscriptions w))))"
proof -
  have o: "cancel w = w"
    using assms(2) by (simp add: cancel_def)
  have c: "BaseTask_cancel w = w\<lparr> status := Canceled \<rparr>"
    using assms by (rule BaseTask_cancel_idle)
  have r: "BaseTask_runUntilAwait requiresUnifiedPlan directions videoSubscriptions
             (BaseTask_cancel w) = (Inl CanceledBeforeRunning, w\<lparr> status := Canceled \<rparr>)"
    unfolding c by (simp add: BaseTask_run_canceled)
  note run = BaseTask_run_idle [OF assms(1), of requiresUnifiedPlan directions videoSubscriptions]
  have s: "fst (BaseTask_runAfterAwait (interceptorsCreated w)
                  (fold (handleSignalingClientEvent (interceptorsCreated w)) events
                     (snd (BaseTask_runUntilAwait requiresUnifiedPlan directions
                             videoSubscriptions w)))) = Suspended \<and>
           interceptorsCreated w \<in>
             registered (fold (handleSignalingClientEvent (interceptorsCreated w)) events
                           (snd (BaseTask_runUntilAwait requiresUnifiedPlan directions
                                   videoSubscriptions w)))"
    if "\<forall>event \<in> set events.
          isConnectionTerminated event \<or> eventType event \<noteq> ReceivedSignalFrame \<or>
          messageType event \<noteq> SUBSCRIBE_ACK"
    using fold_keeps_wait [OF that]
    by (simp add: BaseTask_runAfterAwait_fst runAfterAwait_fst run)
  have f: "fst (BaseTask_runUntilAwait requiresUnifiedPlan directions videoSubscriptions w) =
             Inr (interceptorsCreated w) \<and>
           interceptorsCreated w \<in>
             registered (snd (BaseTask_runUntilAwait requiresUnifiedPlan directions
                                videoSubscriptions w)) \<and>
           taskCanceler (snd (BaseTask_runUntilAwait requiresUnifiedPlan directions
                                videoSubscriptions w)) = Some (interceptorsCreated w)"
    by (simp add: run)
  note d = BaseTask_cancel_idem [of w]
  from o c d r f s show ?thesis
    by blast
qed

theorem cancel_before_run_cancels_the_task_witness:
  "status initialTask = Idle \<and> taskCanceler initialTask = None \<and>
   status (BaseTask_cancel initialTask) = Canceled \<and>
   fst (BaseTask_runUntilAwait True [''recvonly''] [3] (BaseTask_cancel initialTask)) =
     Inl CanceledBeforeRunning \<and>
   registered (snd (BaseTask_runUntilAwait True [''recvonly''] [3] (BaseTask_cancel initialTask))) = {} \<and>
   fst (BaseTask_runUntilAwait True [''recvonly''] [3] initialTask) = Inr 0"
proof -
  have i: "status initialTask = Idle" and n: "taskCanceler initialTask = None"
    and k: "interceptorsCreated initialTask = 0" and g: "registered initialTask = {}"
    by (simp_all add: initialTask_def)
  note t = cancel_before_run_cancels_the_task [OF i n, of True "[''recvonly'']" "[3]" "[]"]
  have c: "BaseTask_cancel initialTask = initialTask\<lparr> status := Canceled \<rparr>"
    using t by blast
  have r: "BaseTask_runUntilAwait True [''recvonly''] [3] (BaseTask_cancel initialTask) =
             (Inl CanceledBeforeRunning, initialTask\<lparr> status := Canceled \<rparr>)"
    using t by blast
  have u: "fst (BaseTask_runUntilAwait True [''recvonly''] [3] initialTask) = Inr 0"
    using t k by simp
  show ?thesis
    using i n u r by (simp add: c g)
qed

text \<open>
  Claim C10, as stated, fails: \<open>cancel()\<close> on a fresh task, then \<open>run()\<close>. The task is
  canceled, \<open>run()\<close> fails at once, and no observer is registered, no frame sent and no
  interceptor installed.
\<close>

theorem cancel_before_run_prevents_wait_counterexample:
  "taskCanceler initialTask = None \<and>
   status (BaseTask_cancel initialTask) = Canceled \<and>
   fst (BaseTask_runUntilAwait False [] [] (BaseTask_cancel initialTask)) =
     Inl CanceledBeforeRunning \<and>
   registered (snd (BaseTask_runUntilAwait False [] [] (BaseTask_cancel initialTask))) = {} \<and>
   subscribed (snd (BaseTask_runUntilAwait False [] [] (BaseTask_cancel initialTask))) = [] \<and>
   taskCanceler (snd (BaseTask_runUntilAwait False [] [] (BaseTask_cancel initialTask))) = None"
proof -
  have c: "BaseTask_cancel initialTask = initialTask\<lparr> status := Canceled \<rparr>"
    by (simp add: BaseTask_cancel_idle initialTask_def)
  show ?thesis
    unfolding c by (simp add: BaseTask_run_canceled) (simp add: initialTask_def)
qed

end
